theory Spec2Isabelle
  imports Complex_Main
begin

section \<open>Scoring (analysis/scoring.py)\<close>

text \<open>
  Python floats are modelled as the reals of HOL: the formulas are those of the source,
  rounding error, infinities and NaN are outside the model. Names keep the source's
  spelling; a leading underscore of a private helper is dropped (\<open>_clip\<close> is \<open>clip\<close>),
  since an identifier cannot start with one.
\<close>

datatype ConfidenceTier = LOCK | STRONG | LEAN | SKIP

fun tier_value :: "ConfidenceTier \<Rightarrow> string" where
  "tier_value LOCK = ''LOCK''"
| "tier_value STRONG = ''STRONG''"
| "tier_value LEAN = ''LEAN''"
| "tier_value SKIP = ''SKIP''"

text \<open>The order LOCK > STRONG > LEAN > SKIP, as a number (used to state monotonicity).\<close>

fun tier_rank :: "ConfidenceTier \<Rightarrow> nat" where
  "tier_rank SKIP = 0"
| "tier_rank LEAN = 1"
| "tier_rank STRONG = 2"
| "tier_rank LOCK = 3"

text \<open>
  The dataclass \<open>DimensionResult\<close> of pipeline.py. The optional diagnostic dictionary
  \<open>raw_data\<close> is an association list of named numbers.
\<close>

record DimensionResult =
  name :: string
  spread_edge :: real
  total_edge :: real
  confidence :: real
  narrative :: string
  raw_data :: "(string \<times> real) list option"

definition COMPOSITE_FLOOR :: real where
  "COMPOSITE_FLOOR = 0"

definition COMPOSITE_CEILING :: real where
  "COMPOSITE_CEILING = 10"

definition RAW_TO_SCALE_FACTOR :: real where
  "RAW_TO_SCALE_FACTOR = 10"

definition clip :: "real \<Rightarrow> real \<Rightarrow> real \<Rightarrow> real" where
  "clip v lo hi = max lo (min hi v)"

text \<open>
  The source selects the edge by attribute name, \<open>getattr(dim, edge_attr, 0.0)\<close>; its
  only callers pass the literals "spread_edge" and "total_edge", which are the two
  constructors here.
\<close>

datatype EdgeAttr = SpreadEdge | TotalEdge

fun getattr_edge :: "DimensionResult \<Rightarrow> EdgeAttr \<Rightarrow> real" where
  "getattr_edge r SpreadEdge = spread_edge r"
| "getattr_edge r TotalEdge = total_edge r"

text \<open>\<open>weights.get(dim.name, 0.0)\<close>\<close>

definition weights_get :: "(string \<rightharpoonup> real) \<Rightarrow> string \<Rightarrow> real" where
  "weights_get weights k = (case weights k of None \<Rightarrow> 0 | Some w \<Rightarrow> w)"

text \<open>One iteration of the loop of \<open>_weighted_edge\<close> on the pair (weighted_sum, total_weight).\<close>

definition weighted_edge_step ::
  "(string \<rightharpoonup> real) \<Rightarrow> EdgeAttr \<Rightarrow> DimensionResult \<Rightarrow> real \<times> real \<Rightarrow> real \<times> real" where
  "weighted_edge_step weights attr r acc =
     (let w = weights_get weights (name r);
          edge = getattr_edge r attr
      in (fst acc + edge * confidence r * w, snd acc + w))"

definition weighted_edge ::
  "DimensionResult list \<Rightarrow> (string \<rightharpoonup> real) \<Rightarrow> EdgeAttr \<Rightarrow> real" where
  "weighted_edge results weights attr =
     (if results = [] then 0
      else
        let acc = fold (weighted_edge_step weights attr) results (0, 0);
            weighted_sum = fst acc;
            total_weight = snd acc
        in if total_weight = 0 then 0
           else
             let normalised = weighted_sum / total_weight;
                 scaled = \<bar>normalised\<bar> * RAW_TO_SCALE_FACTOR
             in clip scaled COMPOSITE_FLOOR COMPOSITE_CEILING)"

definition compute_spread_composite ::
  "DimensionResult list \<Rightarrow> (string \<rightharpoonup> real) \<Rightarrow> real" where
  "compute_spread_composite results weights = weighted_edge results weights SpreadEdge"

definition compute_total_composite ::
  "DimensionResult list \<Rightarrow> (string \<rightharpoonup> real) \<Rightarrow> real" where
  "compute_total_composite results weights = weighted_edge results weights TotalEdge"

definition assign_tier :: "real \<Rightarrow> ConfidenceTier" where
  "assign_tier composite =
     (if composite \<ge> 7 then LOCK
      else if composite \<ge> 45 / 10 then STRONG
      else if composite \<ge> 2 then LEAN
      else SKIP)"

definition compute_kelly_fraction :: "real \<Rightarrow> real \<Rightarrow> real" where
  "compute_kelly_fraction composite implied_prob =
     (let midpoint = 5;
          steepness = 6 / 10;
          z = clip (- steepness * (composite - midpoint)) (- 500) 500;
          estimated_prob = 1 / (1 + exp z)
      in if implied_prob \<ge> 1 then 0
         else
           let edge = estimated_prob - implied_prob
           in if edge \<le> 0 then 0
              else
                let kelly = edge / (1 - implied_prob);
                    max_fraction = 25 / 100
                in clip kelly 0 max_fraction)"

text \<open>
  Three results and a weight mapping for two of them: the third dimension has no weight.
\<close>

definition sample_results :: "DimensionResult list" where
  "sample_results =
     [\<lparr>name = ''a'', spread_edge = 5 / 10, total_edge = - (2 / 10), confidence = 1,
       narrative = ''first'', raw_data = None\<rparr>,
      \<lparr>name = ''b'', spread_edge = 1 / 10, total_edge = - (4 / 10), confidence = 5 / 10,
       narrative = ''second'', raw_data = None\<rparr>,
      \<lparr>name = ''c'', spread_edge = 9, total_edge = 9, confidence = 1,
       narrative = ''unweighted'', raw_data = None\<rparr>]"

definition sample_weights :: "(string \<times> real) list" where
  "sample_weights = [(''a'', 6 / 10), (''b'', 4 / 10)]"

section \<open>Backtest (analysis/backtest.py)\<close>

definition JUICE_RISK :: real where
  "JUICE_RISK = 110"

definition JUICE_WIN :: real where
  "JUICE_WIN = 100"

text \<open>Win, loss and push counts are Python ints.\<close>

definition compute_roi :: "int \<Rightarrow> int \<Rightarrow> int \<Rightarrow> real" where
  "compute_roi wins losses pushes =
     (let decided = wins + losses
      in if decided = 0 then 0
         else
           let profit = (real_of_int wins * JUICE_WIN) - (real_of_int losses * JUICE_RISK);
               total_risked = real_of_int decided * JUICE_RISK
           in profit / total_risked)"

definition compute_accuracy :: "int \<Rightarrow> int \<Rightarrow> real" where
  "compute_accuracy wins losses =
     (let decided = wins + losses
      in if decided = 0 then 0
         else real_of_int wins / real_of_int decided)"

text \<open>
  Exceptions are values. Every constructor stands for an instance of Python's
  \<open>Exception\<close>, so \<open>except Exception\<close> catches each of them. \<open>KeyError\<close> and
  \<open>ValueError\<close> carry the offending key or value (the source formats it into a message),
  \<open>OtherException\<close> stands for whatever else a collaborator raises.
\<close>

datatype pyexn =
    KeyError string
  | ValueError string
  | TypeError string
  | OtherException string

text \<open>
  A row of the table \<open>pick_history\<close>, with the columns that the functions below read
  or write; \<open>composite_score\<close> and \<open>result\<close> are nullable. The same rows are the
  DataFrame that \<open>run_backtest\<close> hands to \<open>_build_calibration\<close>.
\<close>

record pick_history_row =
  ph_game_date :: string
  ph_away_team :: string
  ph_home_team :: string
  ph_pick_type :: string
  ph_pick_side :: string
  ph_composite_score :: "real option"
  ph_result :: "string option"

definition tier_from_composite :: "real \<Rightarrow> string" where
  "tier_from_composite composite =
     (if composite \<ge> 7 then ''LOCK''
      else if composite \<ge> 45 / 10 then ''STRONG''
      else if composite \<ge> 2 then ''LEAN''
      else ''SKIP'')"

definition bin_edges :: "real list" where
  "bin_edges = [0, 2, 45 / 10, 7, 85 / 10, 1001 / 100]"

definition bin_labels :: "string list" where
  "bin_labels = [''0-2'', ''2-4.5'', ''4.5-7'', ''7-8.5'', ''8.5-10'']"

definition bin_midpoints :: "(string \<times> real) list" where
  "bin_midpoints =
     [(''0-2'', 10 / 100), (''2-4.5'', 325 / 1000), (''4.5-7'', 575 / 1000),
      (''7-8.5'', 775 / 1000), (''8.5-10'', 925 / 1000)]"

text \<open>
  \<open>pd.cut(x, bins, labels, right=False)\<close>: the i-th interval is closed on the left and
  open on the right, and a value in no interval gets no label (NaN).
\<close>

fun pd_cut :: "real list \<Rightarrow> string list \<Rightarrow> real \<Rightarrow> string option" where
  "pd_cut (lo # hi # edges) (l # labels) x =
     (if lo \<le> x \<and> x < hi then Some l else pd_cut (hi # edges) labels x)"
| "pd_cut edges labels x = None"

text \<open>The column \<open>bin\<close>; a NULL composite score is NaN in the frame and gets no bin.\<close>

definition row_bin :: "pick_history_row \<Rightarrow> string option" where
  "row_bin r =
     (case ph_composite_score r of
        None \<Rightarrow> None
      | Some c \<Rightarrow> pd_cut bin_edges bin_labels c)"

text \<open>\<open>df["result"].isin(["W", "L"])\<close> and the column \<open>is_win\<close>.\<close>

definition is_decided :: "pick_history_row \<Rightarrow> bool" where
  "is_decided r = (ph_result r = Some ''W'' \<or> ph_result r = Some ''L'')"

definition is_win :: "pick_history_row \<Rightarrow> nat" where
  "is_win r = (if ph_result r = Some ''W'' then 1 else 0)"

record calibration_row =
  cal_bin :: string
  cal_predicted :: real
  cal_actual :: real
  cal_count :: nat

text \<open>The mean of a non-empty integer column.\<close>

definition mean :: "nat list \<Rightarrow> real" where
  "mean xs = real (sum_list xs) / real (length xs)"

text \<open>
  The loop of \<open>_build_calibration\<close> over the bin labels. The subscript
  \<open>bin_midpoints[bin_label]\<close> raises \<open>KeyError\<close> on a label that is no key.
\<close>

fun calibration_rows ::
  "pick_history_row list \<Rightarrow> string list \<Rightarrow> pyexn + calibration_row list" where
  "calibration_rows decided [] = Inr []"
| "calibration_rows decided (bin_label # rest) =
     (let bin_data = filter (\<lambda>r. row_bin r = Some bin_label) decided
      in if bin_data = [] then calibration_rows decided rest
         else
           (case map_of bin_midpoints bin_label of
              None \<Rightarrow> Inl (KeyError bin_label)
            | Some predicted \<Rightarrow>
                (case calibration_rows decided rest of
                   Inl e \<Rightarrow> Inl e
                 | Inr rows \<Rightarrow>
                     Inr (\<lparr>cal_bin = bin_label,
                           cal_predicted = predicted,
                           cal_actual = mean (map is_win bin_data),
                           cal_count = length bin_data\<rparr> # rows))))"

definition build_calibration :: "pick_history_row list \<Rightarrow> pyexn + calibration_row list" where
  "build_calibration df =
     (let decided = filter is_decided df
      in if decided = [] then Inr []
         else calibration_rows decided bin_labels)"

text \<open>
  \<open>str.upper\<close> and \<open>str.lower\<close> on the ASCII letters; any other character is left
  as it is (no character outside ASCII maps to one of the letters of the accepted
  codes).
\<close>

definition ascii_lowercase :: string where
  "ascii_lowercase = ''abcdefghijklmnopqrstuvwxyz''"

definition ascii_uppercase :: string where
  "ascii_uppercase = ''ABCDEFGHIJKLMNOPQRSTUVWXYZ''"

definition upper_char :: "char \<Rightarrow> char" where
  "upper_char c =
     (case map_of (zip ascii_lowercase ascii_uppercase) c of None \<Rightarrow> c | Some u \<Rightarrow> u)"

definition lower_char :: "char \<Rightarrow> char" where
  "lower_char c =
     (case map_of (zip ascii_uppercase ascii_lowercase) c of None \<Rightarrow> c | Some l \<Rightarrow> l)"

definition str_upper :: "string \<Rightarrow> string" where
  "str_upper s = map upper_char s"

definition str_lower :: "string \<Rightarrow> string" where
  "str_lower s = map lower_char s"

text \<open>The two log calls at the end of \<open>record_result\<close>.\<close>

datatype log_level = LogWarning | LogInfo

text \<open>The WHERE clause of the UPDATE of \<open>record_result\<close>.\<close>

definition update_matches ::
  "string \<Rightarrow> string \<Rightarrow> string \<Rightarrow> string \<Rightarrow> pick_history_row \<Rightarrow> bool" where
  "update_matches game_date away_team home_team pick_type r =
     (ph_game_date r = game_date
      \<and> ph_away_team r = away_team
      \<and> ph_home_team r = home_team
      \<and> ph_pick_type r = pick_type
      \<and> ph_result r = None)"

text \<open>
  \<open>record_result\<close>: the table is passed in and returned; the first component is the
  exception raised, or the level of the log line on a normal return.
\<close>

definition record_result ::
  "pick_history_row list \<Rightarrow> string \<Rightarrow> string \<Rightarrow> string \<Rightarrow> string \<Rightarrow> string
     \<Rightarrow> (pyexn + log_level) \<times> pick_history_row list" where
  "record_result conn game_date away_team home_team pick_type0 result0 =
     (let result = str_upper result0;
          pick_type = str_lower pick_type0
      in if result \<notin> set [''W'', ''L'', ''P''] then (Inl (ValueError result), conn)
         else if pick_type \<notin> set [''spread'', ''total''] then (Inl (ValueError pick_type), conn)
         else
           let hit = update_matches game_date away_team home_team pick_type;
               conn' = map (\<lambda>r. if hit r then r\<lparr>ph_result := Some result\<rparr> else r) conn;
               rows_updated = length (filter hit conn)
           in if rows_updated = 0 then (Inr LogWarning, conn')
              else (Inr LogInfo, conn'))"

text \<open>
  The bands and the predicted constants as the specification words them, for the
  statement about the calibration table: five bands over the 0-10 scale, each closed on
  the left, the last one closed at 10 as well.
\<close>

definition spec_in_band :: "string \<Rightarrow> real \<Rightarrow> bool" where
  "spec_in_band l c =
     (if l = ''0-2'' then 0 \<le> c \<and> c < 2
      else if l = ''2-4.5'' then 2 \<le> c \<and> c < 45 / 10
      else if l = ''4.5-7'' then 45 / 10 \<le> c \<and> c < 7
      else if l = ''7-8.5'' then 7 \<le> c \<and> c < 85 / 10
      else if l = ''8.5-10'' then 85 / 10 \<le> c \<and> c \<le> 10
      else False)"

definition spec_predicted :: "string \<Rightarrow> real" where
  "spec_predicted l =
     (if l = ''0-2'' then 10 / 100
      else if l = ''2-4.5'' then 325 / 1000
      else if l = ''4.5-7'' then 575 / 1000
      else if l = ''7-8.5'' then 775 / 1000
      else 925 / 1000)"

definition band_picks :: "string \<Rightarrow> pick_history_row list \<Rightarrow> pick_history_row list" where
  "band_picks l df =
     filter (\<lambda>r. is_decided r \<and>
                 (case ph_composite_score r of None \<Rightarrow> False | Some c \<Rightarrow> spec_in_band l c)) df"

text \<open>
  The rows of one band in the decided picks, and the table row (none for an empty band)
  that one iteration of the loop of \<open>_build_calibration\<close> yields for a label and
  its constant.
\<close>

definition bin_data_of :: "pick_history_row list \<Rightarrow> string \<Rightarrow> pick_history_row list" where
  "bin_data_of decided l = filter (\<lambda>r. row_bin r = Some l) decided"

definition bin_row :: "pick_history_row list \<Rightarrow> string \<times> real \<Rightarrow> calibration_row list" where
  "bin_row decided lp =
     (if bin_data_of decided (fst lp) = [] then []
      else [\<lparr>cal_bin = fst lp, cal_predicted = snd lp,
             cal_actual = mean (map is_win (bin_data_of decided (fst lp))),
             cal_count = length (bin_data_of decided (fst lp))\<rparr>])"

text \<open>A small frame of resolved picks: a win at 10, a loss at 3 and a push at 2.\<close>

definition calib_df :: "pick_history_row list" where
  "calib_df =
     [\<lparr>ph_game_date = ''2025-02-14'', ph_away_team = ''Duke'', ph_home_team = ''UNC'',
       ph_pick_type = ''spread'', ph_pick_side = ''Duke'',
       ph_composite_score = Some 10, ph_result = Some ''W''\<rparr>,
      \<lparr>ph_game_date = ''2025-02-14'', ph_away_team = ''Duke'', ph_home_team = ''UNC'',
       ph_pick_type = ''total'', ph_pick_side = ''OVER'',
       ph_composite_score = Some 3, ph_result = Some ''L''\<rparr>,
      \<lparr>ph_game_date = ''2025-02-15'', ph_away_team = ''Kansas'', ph_home_team = ''Baylor'',
       ph_pick_type = ''spread'', ph_pick_side = ''Baylor'',
       ph_composite_score = Some 2, ph_result = Some ''P''\<rparr>]"

text \<open>A table with two unresolved picks and a resolved one for the same game.\<close>

definition results_conn :: "pick_history_row list" where
  "results_conn =
     [\<lparr>ph_game_date = ''2025-02-14'', ph_away_team = ''Duke'', ph_home_team = ''UNC'',
       ph_pick_type = ''spread'', ph_pick_side = ''Duke'',
       ph_composite_score = Some 5, ph_result = None\<rparr>,
      \<lparr>ph_game_date = ''2025-02-14'', ph_away_team = ''Duke'', ph_home_team = ''UNC'',
       ph_pick_type = ''total'', ph_pick_side = ''OVER'',
       ph_composite_score = Some 3, ph_result = None\<rparr>,
      \<lparr>ph_game_date = ''2025-02-14'', ph_away_team = ''Duke'', ph_home_team = ''UNC'',
       ph_pick_type = ''spread'', ph_pick_side = ''Duke'',
       ph_composite_score = Some 5, ph_result = Some ''L''\<rparr>]"

section \<open>The pipeline (analysis/pipeline.py, output/pick_card.py)\<close>

text \<open>
  A \<open>pd.Series\<close> is a list of labelled values, \<open>None\<close> standing for a missing value
  (a NULL of the database); it is empty when the list is. A DataFrame is a list of rows.
  \<open>Series.get(key, default)\<close> returns the value at the label, or the default when the
  label is absent.
\<close>

type_synonym series = "(string \<times> real option) list"

type_synonym dataframe = "series list"

definition series_get :: "series \<Rightarrow> string \<Rightarrow> real option \<Rightarrow> real option" where
  "series_get s k dflt = (case map_of s k of None \<Rightarrow> dflt | Some v \<Rightarrow> v)"

record MatchupContext =
  away_team :: string
  home_team :: string
  game_date :: string
  season :: int
  away_ratings :: series
  home_ratings :: series
  away_four_factors :: series
  home_four_factors :: series
  away_game_logs :: dataframe
  home_game_logs :: dataframe
  away_ats :: dataframe
  home_ats :: dataframe
  away_ou :: dataframe
  home_ou :: dataframe
  line :: series
  away_ratings_history :: dataframe
  home_ratings_history :: dataframe

text \<open>
  The dataclass \<open>PickCard\<close>. Its fields \<open>away_team\<close>, \<open>home_team\<close>, \<open>game_date\<close>,
  \<open>spread\<close> and \<open>total\<close> carry the prefix \<open>card_\<close> here, the first three because the
  context has fields of the same names.
\<close>

record PickCard =
  card_away_team :: string
  card_home_team :: string
  card_game_date :: string
  card_spread :: real
  card_total :: real
  projected_away_score :: real
  projected_home_score :: real
  projected_total :: real
  true_spread :: real
  spread_pick :: string
  spread_confidence :: string
  spread_composite :: real
  spread_value :: real
  total_pick :: string
  total_confidence :: string
  total_composite :: real
  total_value :: real
  dimension_results :: "DimensionResult list"
  headline :: string
  key_factors :: "string list"
  trap_warnings :: "string list"

definition DIMENSION_REGISTRY :: "(string \<times> string \<times> string) list" where
  "DIMENSION_REGISTRY =
     [(''pace_adjusted'', ''.dimensions.pace_adjusted'', ''analyze''),
      (''four_factors'', ''.dimensions.four_factors'', ''analyze''),
      (''opponent_quality'', ''.dimensions.opponent_quality'', ''analyze''),
      (''home_away'', ''.dimensions.home_away'', ''analyze''),
      (''recency'', ''.dimensions.recency'', ''analyze''),
      (''shooting_zones'', ''.dimensions.shooting_zones'', ''analyze''),
      (''turnover_chain'', ''.dimensions.turnover_chain'', ''analyze''),
      (''ft_rate'', ''.dimensions.ft_rate'', ''analyze''),
      (''ats_correlation'', ''.dimensions.ats_correlation'', ''analyze''),
      (''variance'', ''.dimensions.variance'', ''analyze''),
      (''rank_asymmetry'', ''.dimensions.rank_asymmetry'', ''analyze''),
      (''trap_detect'', ''.dimensions.trap_detect'', ''analyze'')]"

definition DIMENSION_WEIGHTS :: "(string \<times> real) list" where
  "DIMENSION_WEIGHTS =
     [(''pace_adjusted'', 14 / 100),
      (''four_factors'', 14 / 100),
      (''opponent_quality'', 10 / 100),
      (''home_away'', 8 / 100),
      (''recency'', 9 / 100),
      (''shooting_zones'', 7 / 100),
      (''turnover_chain'', 7 / 100),
      (''ft_rate'', 5 / 100),
      (''ats_correlation'', 8 / 100),
      (''variance'', 6 / 100),
      (''rank_asymmetry'', 6 / 100),
      (''trap_detect'', 6 / 100)]"

text \<open>
  A signal source is a function from the context that returns a result or raises. The
  twelve dimension modules are collaborators: the pipeline is modelled for any outcome
  of \<open>importlib.import_module\<close> followed by \<open>getattr\<close>, given as a function of the
  module path and the attribute name. The cache \<open>_dim_funcs\<close> of the pipeline object
  is passed in and returned.
\<close>

type_synonym dimension_func = "MatchupContext \<Rightarrow> pyexn + DimensionResult"

type_synonym importer = "string \<Rightarrow> string \<Rightarrow> pyexn + dimension_func"

type_synonym dim_cache = "string \<rightharpoonup> dimension_func"

definition get_dimension_func ::
  "importer \<Rightarrow> dim_cache \<Rightarrow> string \<Rightarrow> (pyexn + dimension_func) \<times> dim_cache" where
  "get_dimension_func import_attr dim_funcs dim_name =
     (case dim_funcs dim_name of
        Some func \<Rightarrow> (Inr func, dim_funcs)
      | None \<Rightarrow>
          (case map_of DIMENSION_REGISTRY dim_name of
             None \<Rightarrow> (Inl (KeyError dim_name), dim_funcs)
           | Some (module_path, func_name) \<Rightarrow>
               (case import_attr module_path func_name of
                  Inl e \<Rightarrow> (Inl e, dim_funcs)
                | Inr func \<Rightarrow> (Inr func, dim_funcs(dim_name \<mapsto> func)))))"

text \<open>The result built in the \<open>except Exception\<close> branch of \<open>_run_dimension\<close>.\<close>

definition neutral_result :: "string \<Rightarrow> DimensionResult" where
  "neutral_result dim_name =
     \<lparr>name = dim_name,
      spread_edge = 0,
      total_edge = 0,
      confidence = 0,
      narrative = ''['' @ dim_name @ ''] dimension unavailable.'',
      raw_data = None\<rparr>"

text \<open>The body of the \<open>try\<close> block of \<open>_run_dimension\<close>.\<close>

definition run_dimension_try ::
  "importer \<Rightarrow> dim_cache \<Rightarrow> string \<Rightarrow> MatchupContext
     \<Rightarrow> (pyexn + DimensionResult) \<times> dim_cache" where
  "run_dimension_try import_attr dim_funcs dim_name ctx =
     (case get_dimension_func import_attr dim_funcs dim_name of
        (Inl e, dim_funcs') \<Rightarrow> (Inl e, dim_funcs')
      | (Inr func, dim_funcs') \<Rightarrow>
          (case func ctx of
             Inl e \<Rightarrow> (Inl e, dim_funcs')
           | Inr result \<Rightarrow>
               (Inr (result\<lparr>confidence := max 0 (min 1 (confidence result))\<rparr>), dim_funcs')))"

text \<open>
  \<open>_run_dimension\<close>: the \<open>try\<close> block with its handler. The result keeps the sum type,
  so that a raise of the dispatcher would be a value \<open>Inl\<close>.
\<close>

definition run_dimension ::
  "importer \<Rightarrow> dim_cache \<Rightarrow> string \<Rightarrow> MatchupContext
     \<Rightarrow> (pyexn + DimensionResult) \<times> dim_cache" where
  "run_dimension import_attr dim_funcs dim_name ctx =
     (case run_dimension_try import_attr dim_funcs dim_name ctx of
        (Inl e, dim_funcs') \<Rightarrow> (Inr (neutral_result dim_name), dim_funcs')
      | (Inr result, dim_funcs') \<Rightarrow> (Inr result, dim_funcs'))"

text \<open>The first loop of \<open>analyze_matchup\<close>, over the keys of the weight table.\<close>

fun run_dimensions ::
  "importer \<Rightarrow> dim_cache \<Rightarrow> string list \<Rightarrow> MatchupContext
     \<Rightarrow> (pyexn + DimensionResult list) \<times> dim_cache" where
  "run_dimensions import_attr dim_funcs [] ctx = (Inr [], dim_funcs)"
| "run_dimensions import_attr dim_funcs (dim_name # rest) ctx =
     (case run_dimension import_attr dim_funcs dim_name ctx of
        (Inl e, dim_funcs') \<Rightarrow> (Inl e, dim_funcs')
      | (Inr dim_result, dim_funcs') \<Rightarrow>
          (case run_dimensions import_attr dim_funcs' rest ctx of
             (Inl e, dim_funcs'') \<Rightarrow> (Inl e, dim_funcs'')
           | (Inr results, dim_funcs'') \<Rightarrow> (Inr (dim_result # results), dim_funcs'')))"

definition aggregate_direction :: "DimensionResult list \<Rightarrow> EdgeAttr \<Rightarrow> real" where
  "aggregate_direction results attr = (\<Sum>r\<leftarrow>results. getattr_edge r attr * confidence r)"

text \<open>
  \<open>round(x, 1)\<close>: to one decimal place, a tie going to the even last digit.
\<close>

definition py_round1 :: "real \<Rightarrow> real" where
  "py_round1 x =
     (let y = x * 10;
          f = \<lfloor>y\<rfloor>;
          d = y - of_int f
      in (if d < 1 / 2 then of_int f
          else if 1 / 2 < d then of_int (f + 1)
          else if even f then of_int f
          else of_int (f + 1)) / 10)"

text \<open>\<open>float(v) if v is not None else d\<close> and \<open>float(v or d)\<close>.\<close>

definition float_unless_none :: "real option \<Rightarrow> real \<Rightarrow> real" where
  "float_unless_none v d = (case v of None \<Rightarrow> d | Some x \<Rightarrow> x)"

definition float_or :: "real option \<Rightarrow> real \<Rightarrow> real" where
  "float_or v d = (case v of None \<Rightarrow> d | Some x \<Rightarrow> if x = 0 then d else x)"

text \<open>\<open>d.get(key, default)\<close> on a diagnostic dictionary.\<close>

definition dict_get :: "(string \<times> real) list \<Rightarrow> string \<Rightarrow> real \<Rightarrow> real" where
  "dict_get d k dflt = (case map_of d k of None \<Rightarrow> dflt | Some v \<Rightarrow> v)"

text \<open>
  The diagnostic dictionary of the first result with the given name, when that result
  exists and its dictionary is neither \<open>None\<close> nor empty (the truth test
  \<open>r and r.raw_data\<close>).
\<close>

definition truthy_raw_data :: "DimensionResult list \<Rightarrow> string \<Rightarrow> (string \<times> real) list option" where
  "truthy_raw_data results dim_name =
     (case find (\<lambda>r. name r = dim_name) results of
        None \<Rightarrow> None
      | Some r \<Rightarrow>
          (case raw_data r of
             None \<Rightarrow> None
           | Some d \<Rightarrow> if d = [] then None else Some d))"

text \<open>\<open>s.get(key, 105.0) if not s.empty else 105.0\<close>\<close>

definition rating_or_default :: "series \<Rightarrow> string \<Rightarrow> real option" where
  "rating_or_default s k = (if s \<noteq> [] then series_get s k (Some 105) else Some 105)"

text \<open>
  The ratings fallback of the projection: \<open>float(a + b) / 2.0 * avg_tempo / 100.0\<close>;
  the sum raises \<open>TypeError\<close> when a rating is \<open>None\<close>.
\<close>

definition rating_blend :: "real option \<Rightarrow> real option \<Rightarrow> pyexn + real" where
  "rating_blend a b =
     (case (a, b) of
        (Some x, Some y) \<Rightarrow> Inr ((x + y) / 2 * (675 / 10) / 100)
      | _ \<Rightarrow> Inl (TypeError ''unsupported operand type(s) for +''))"

text \<open>The projected scores (away, home) of \<open>analyze_matchup\<close>.\<close>

definition project_scores :: "DimensionResult list \<Rightarrow> MatchupContext \<Rightarrow> pyexn + real \<times> real" where
  "project_scores results ctx =
     (case truthy_raw_data results ''pace_adjusted'' of
        Some d \<Rightarrow> Inr (dict_get d ''away_pts'' 70, dict_get d ''home_pts'' 70)
      | None \<Rightarrow>
          (let away_o = rating_or_default (away_ratings ctx) ''adj_o'';
               home_d = rating_or_default (home_ratings ctx) ''adj_d'';
               home_o = rating_or_default (home_ratings ctx) ''adj_o'';
               away_d = rating_or_default (away_ratings ctx) ''adj_d''
           in case rating_blend away_o home_d of
                Inl e \<Rightarrow> Inl e
              | Inr proj_away \<Rightarrow>
                  (case rating_blend home_o away_d of
                     Inl e \<Rightarrow> Inl e
                   | Inr proj_home \<Rightarrow> Inr (proj_away, proj_home))))"

text \<open>
  \<open>sorted(results, key=..., reverse=True)\<close> is stable, as is \<open>sort_key\<close> on the
  negated key.
\<close>

definition top_narratives :: "DimensionResult list \<Rightarrow> string list" where
  "top_narratives results =
     (let sorted_results = sort_key (\<lambda>r. - (\<bar>spread_edge r\<bar> * confidence r)) results
      in filter (\<lambda>n. n \<noteq> []) (map narrative (take 3 sorted_results)))"

definition trap_narratives :: "DimensionResult list \<Rightarrow> string list" where
  "trap_narratives results =
     (case find (\<lambda>r. name r = ''trap_detect'') results of
        None \<Rightarrow> []
      | Some trap_result \<Rightarrow>
          (case raw_data trap_result of
             None \<Rightarrow> []
           | Some d \<Rightarrow>
               if d \<noteq> [] \<and> dict_get d ''trap_score'' 0 > 3 / 10
               then [narrative trap_result]
               else []))"

text \<open>
  The part of \<open>analyze_matchup\<close> after the dimensions have run, for given projected
  scores: composites, directions, tiers, pick sides, line values and the card. The
  unused local \<open>primary_tier\<close> is left out.
\<close>

definition make_card ::
  "DimensionResult list \<Rightarrow> MatchupContext \<Rightarrow> real \<Rightarrow> real \<Rightarrow> PickCard" where
  "make_card results ctx proj_away proj_home =
     (let weights = map_of DIMENSION_WEIGHTS;
          spread_comp = compute_spread_composite results weights;
          total_comp = compute_total_composite results weights;
          spread_direction = aggregate_direction results SpreadEdge;
          total_direction = aggregate_direction results TotalEdge;
          spread_tier = assign_tier spread_comp;
          total_tier = assign_tier total_comp;
          spread_pick_side = (if spread_direction \<ge> 0 then away_team ctx else home_team ctx);
          total_pick_side = (if total_direction \<ge> 0 then ''OVER'' else ''UNDER'');
          vegas_spread = (if line ctx \<noteq> [] then series_get (line ctx) ''spread'' (Some 0)
                          else Some 0);
          vegas_total = (if line ctx \<noteq> [] then series_get (line ctx) ''total'' (Some 140)
                         else Some 140);
          proj_total = proj_away + proj_home;
          model_spread = proj_away - proj_home
      in \<lparr>card_away_team = away_team ctx,
          card_home_team = home_team ctx,
          card_game_date = game_date ctx,
          card_spread = float_unless_none vegas_spread 0,
          card_total = float_unless_none vegas_total 140,
          projected_away_score = py_round1 proj_away,
          projected_home_score = py_round1 proj_home,
          projected_total = py_round1 proj_total,
          true_spread = py_round1 model_spread,
          spread_pick = spread_pick_side,
          spread_confidence = tier_value spread_tier,
          spread_composite = spread_comp,
          spread_value = py_round1 (model_spread - float_or vegas_spread 0),
          total_pick = total_pick_side,
          total_confidence = tier_value total_tier,
          total_composite = total_comp,
          total_value = py_round1 (proj_total - float_or vegas_total 140),
          dimension_results = results,
          headline =
            spread_pick_side @ '' '' @ tier_value spread_tier @ '' (''
              @ (if spread_pick_side \<noteq> [] then ''covers'' else ''N/A'') @ '') | ''
              @ total_pick_side @ '' '' @ tier_value total_tier,
          key_factors = top_narratives results,
          trap_warnings = trap_narratives results\<rparr>)"

text \<open>The projection may raise; the card is built from its scores.\<close>

definition assemble_card :: "DimensionResult list \<Rightarrow> MatchupContext \<Rightarrow> pyexn + PickCard" where
  "assemble_card results ctx =
     (case project_scores results ctx of
        Inl e \<Rightarrow> Inl e
      | Inr (proj_away, proj_home) \<Rightarrow> Inr (make_card results ctx proj_away proj_home))"

definition analyze_matchup ::
  "importer \<Rightarrow> dim_cache \<Rightarrow> MatchupContext \<Rightarrow> (pyexn + PickCard) \<times> dim_cache" where
  "analyze_matchup import_attr dim_funcs ctx =
     (case run_dimensions import_attr dim_funcs (map fst DIMENSION_WEIGHTS) ctx of
        (Inl e, dim_funcs') \<Rightarrow> (Inl e, dim_funcs')
      | (Inr results, dim_funcs') \<Rightarrow> (assemble_card results ctx, dim_funcs'))"

text \<open>
  Concrete collaborators for the examples: an empty cache, an importer whose every
  signal source reports the same small edges with a confidence above 1, an importer whose
  every signal source raises, and a context with no data at all.
\<close>

definition no_dim_funcs :: dim_cache where
  "no_dim_funcs = Map.empty"

definition flat_importer :: importer where
  "flat_importer module_path func_name =
     Inr (\<lambda>ctx. Inr \<lparr>name = drop 12 module_path,
                      spread_edge = - (1 / 10),
                      total_edge = 1 / 10,
                      confidence = 3 / 2,
                      narrative = ''flat'',
                      raw_data = None\<rparr>)"

definition raising_importer :: importer where
  "raising_importer module_path func_name =
     Inr (\<lambda>ctx. Inl (OtherException ''ZeroDivisionError''))"

definition duke_unc :: MatchupContext where
  "duke_unc =
     \<lparr>away_team = ''Duke'', home_team = ''UNC'', game_date = ''2025-02-14'', season = 2025,
      away_ratings = [], home_ratings = [], away_four_factors = [], home_four_factors = [],
      away_game_logs = [], home_game_logs = [], away_ats = [], home_ats = [],
      away_ou = [], home_ou = [], line = [],
      away_ratings_history = [], home_ratings_history = []\<rparr>"

text \<open>What the dispatcher makes of the flat signal sources: the confidence clamped to 1.\<close>

definition flat_results :: "DimensionResult list" where
  "flat_results =
     map (\<lambda>n. \<lparr>name = n, spread_edge = - (1 / 10), total_edge = 1 / 10, confidence = 1,
                 narrative = ''flat'', raw_data = None\<rparr>)
       (map fst DIMENSION_WEIGHTS)"

text \<open>What the dispatcher makes of signal sources that all raise.\<close>

definition neutral_results :: "DimensionResult list" where
  "neutral_results = map neutral_result (map fst DIMENSION_WEIGHTS)"

section \<open>Properties of the scoring functions\<close>

lemma clip_bounds: "lo \<le> hi \<Longrightarrow> lo \<le> clip v lo hi \<and> clip v lo hi \<le> hi"
  by (simp add: clip_def)

lemma weighted_edge_step_apply:
  "weighted_edge_step weights attr d acc =
     (fst acc + getattr_edge d attr * confidence d * weights_get weights (name d),
      snd acc + weights_get weights (name d))"
  by (simp add: weighted_edge_step_def Let_def)

lemma fold_pair_sums:
  fixes f :: "'a \<Rightarrow> real \<times> real \<Rightarrow> real \<times> real"
  assumes step: "\<And>d acc. f d acc = (fst acc + g d, snd acc + h d)"
  shows "fold f xs acc = (fst acc + sum_list (map g xs), snd acc + sum_list (map h xs))"
proof (induction xs arbitrary: acc)
  case Nil
  show ?case by simp
next
  case (Cons d ds)
  have "fold f (d # ds) acc = fold f ds (f d acc)"
    by simp
  also have "\<dots> = (fst (f d acc) + sum_list (map g ds), snd (f d acc) + sum_list (map h ds))"
    by (rule Cons.IH)
  also have "\<dots> = (fst acc + sum_list (map g (d # ds)), snd acc + sum_list (map h (d # ds)))"
    by (simp add: step add.assoc)
  finally show ?case .
qed

lemma fold_weighted_edge_step:
  "fold (weighted_edge_step weights attr) results acc =
     (fst acc + (\<Sum>d\<leftarrow>results. getattr_edge d attr * confidence d * weights_get weights (name d)),
      snd acc + (\<Sum>d\<leftarrow>results. weights_get weights (name d)))"
  by (rule fold_pair_sums) (rule weighted_edge_step_apply)

text \<open>
  C4. \<open>assign_tier\<close> is the step function with inclusive lower bounds 7.0, 4.5 and 2.0:
  LOCK from 7.0 up, STRONG on [4.5, 7.0), LEAN on [2.0, 4.5), SKIP below 2.0; the tier
  never decreases when the composite grows; and the six boundary values 7.0, 6.999, 4.5,
  4.499, 2.0, 1.999 get LOCK, STRONG, STRONG, LEAN, LEAN, SKIP.
\<close>

theorem assign_tier_step_function:
  "(assign_tier c = LOCK \<longleftrightarrow> 7 \<le> c)
   \<and> (assign_tier c = STRONG \<longleftrightarrow> 45 / 10 \<le> c \<and> c < 7)
   \<and> (assign_tier c = LEAN \<longleftrightarrow> 2 \<le> c \<and> c < 45 / 10)
   \<and> (assign_tier c = SKIP \<longleftrightarrow> c < 2)
   \<and> (c \<le> c' \<longrightarrow> tier_rank (assign_tier c) \<le> tier_rank (assign_tier c'))
   \<and> assign_tier 7 = LOCK \<and> assign_tier (6999 / 1000) = STRONG
   \<and> assign_tier (45 / 10) = STRONG \<and> assign_tier (4499 / 1000) = LEAN
   \<and> assign_tier 2 = LEAN \<and> assign_tier (1999 / 1000) = SKIP"
  by (simp add: assign_tier_def)

theorem assign_tier_step_function_witness:
  "(2::real) \<le> 5 \<and> tier_rank (assign_tier 2) \<le> tier_rank (assign_tier 5)
   \<and> assign_tier 2 = LEAN \<and> assign_tier 5 = STRONG"
  using assign_tier_step_function [of 2 5] assign_tier_step_function [of 5 5]
  by simp

lemma weights_get_case:
  "weights_get weights k = (case weights k of None \<Rightarrow> 0 | Some w \<Rightarrow> w)"
  by (simp add: weights_get_def)

text \<open>
  C3. For every list of results and every weight mapping, the spread and the total
  composite are 0 when the list is empty or the weights of the listed dimensions sum to
  zero, and otherwise the absolute value of the sum of edge * confidence * weight
  normalised by the summed weights, times 10, clamped to [0, 10]; so each composite lies
  in [0, 10]. The weight of a result is the mapping's entry for its name, and 0 when the
  mapping has none. On the three sample results with weights 0.6 and 0.4 for the first
  two, the spread composite is 3.2 and the total composite 2.0; with the single weight 0
  the composite is 0; with a single weight on the third result it is clamped to 10; on
  the empty list it is 0.
\<close>

theorem composite_formula:
  "compute_spread_composite results weights =
     (if results = []
         \<or> (\<Sum>d\<leftarrow>results. case weights (name d) of None \<Rightarrow> 0 | Some w \<Rightarrow> w) = 0
      then 0
      else max 0 (min 10
             (\<bar>(\<Sum>d\<leftarrow>results. spread_edge d * confidence d
                     * (case weights (name d) of None \<Rightarrow> 0 | Some w \<Rightarrow> w))
                / (\<Sum>d\<leftarrow>results. case weights (name d) of None \<Rightarrow> 0 | Some w \<Rightarrow> w)\<bar> * 10)))
   \<and> compute_total_composite results weights =
     (if results = []
         \<or> (\<Sum>d\<leftarrow>results. case weights (name d) of None \<Rightarrow> 0 | Some w \<Rightarrow> w) = 0
      then 0
      else max 0 (min 10
             (\<bar>(\<Sum>d\<leftarrow>results. total_edge d * confidence d
                     * (case weights (name d) of None \<Rightarrow> 0 | Some w \<Rightarrow> w))
                / (\<Sum>d\<leftarrow>results. case weights (name d) of None \<Rightarrow> 0 | Some w \<Rightarrow> w)\<bar> * 10)))
   \<and> 0 \<le> compute_spread_composite results weights
   \<and> compute_spread_composite results weights \<le> 10
   \<and> 0 \<le> compute_total_composite results weights
   \<and> compute_total_composite results weights \<le> 10
   \<and> compute_spread_composite sample_results (map_of sample_weights) = 32 / 10
   \<and> compute_total_composite sample_results (map_of sample_weights) = 2
   \<and> compute_spread_composite sample_results (map_of [(''a'', 0)]) = 0
   \<and> compute_spread_composite sample_results (map_of [(''c'', 1 / 2)]) = 10
   \<and> compute_spread_composite [] (map_of sample_weights) = 0"
proof -
  have general:
    "weighted_edge results weights attr =
     (if results = []
         \<or> (\<Sum>d\<leftarrow>results. case weights (name d) of None \<Rightarrow> 0 | Some w \<Rightarrow> w) = 0
      then 0
      else max 0 (min 10
             (\<bar>(\<Sum>d\<leftarrow>results. getattr_edge d attr * confidence d
                     * (case weights (name d) of None \<Rightarrow> 0 | Some w \<Rightarrow> w))
                / (\<Sum>d\<leftarrow>results. case weights (name d) of None \<Rightarrow> 0 | Some w \<Rightarrow> w)\<bar> * 10)))"
    for attr
    by (simp add: weighted_edge_def fold_weighted_edge_step Let_def clip_def
        COMPOSITE_FLOOR_def COMPOSITE_CEILING_def RAW_TO_SCALE_FACTOR_def weights_get_case)
  have range: "0 \<le> weighted_edge results weights attr \<and> weighted_edge results weights attr \<le> 10"
    for attr
    by (simp add: weighted_edge_def Let_def clip_def COMPOSITE_FLOOR_def COMPOSITE_CEILING_def)
  have inst:
    "compute_spread_composite sample_results (map_of sample_weights) = 32 / 10"
    "compute_total_composite sample_results (map_of sample_weights) = 2"
    "compute_spread_composite sample_results (map_of [(''a'', 0)]) = 0"
    "compute_spread_composite sample_results (map_of [(''c'', 1 / 2)]) = 10"
    "compute_spread_composite [] (map_of sample_weights) = 0"
    by (simp_all add: compute_spread_composite_def compute_total_composite_def weighted_edge_def
        sample_results_def sample_weights_def weighted_edge_step_def weights_get_def Let_def
        clip_def COMPOSITE_FLOOR_def COMPOSITE_CEILING_def RAW_TO_SCALE_FACTOR_def)
  show ?thesis
    using general [of SpreadEdge] general [of TotalEdge] range [of SpreadEdge]
      range [of TotalEdge] inst
    by (simp add: compute_spread_composite_def compute_total_composite_def)
qed

text \<open>
  C7. For all win, loss and push counts, the ROI is (100 W - 110 L) / (110 (W + L)), and
  0 when W + L = 0; the push count does not enter; the accuracy is W / (W + L), and 0 when
  W + L = 0. For 10 wins and no loss the ROI is 10/11, within 0.001 of 0.909; for no win
  and 10 losses it is -1.
\<close>

theorem roi_accuracy_formulas:
  "compute_roi W L P =
     (if W + L = 0 then 0
      else (100 * real_of_int W - 110 * real_of_int L) / (110 * (real_of_int W + real_of_int L)))
   \<and> compute_roi W L P = compute_roi W L P'
   \<and> compute_accuracy W L =
     (if W + L = 0 then 0 else real_of_int W / (real_of_int W + real_of_int L))
   \<and> compute_roi 0 0 P = 0
   \<and> compute_roi 10 0 P = 10 / 11
   \<and> \<bar>compute_roi 10 0 P - 909 / 1000\<bar> < 1 / 1000
   \<and> compute_roi 0 10 P = - 1"
  by (simp add: compute_roi_def compute_accuracy_def JUICE_RISK_def JUICE_WIN_def Let_def
      mult.commute)

subsection \<open>The Kelly fraction\<close>

lemma kelly_unfold:
  "compute_kelly_fraction c p =
     (if 1 \<le> p \<or> 1 / (1 + exp (clip (- (6 / 10) * (c - 5)) (- 500) 500)) \<le> p then 0
      else min (25 / 100)
             ((1 / (1 + exp (clip (- (6 / 10) * (c - 5)) (- 500) 500)) - p) / (1 - p)))"
proof -
  define q where "q = 1 / (1 + exp (clip (- (6 / 10) * (c - 5)) (- 500) 500))"
  have pos: "0 \<le> (q - p) / (1 - p)" if "p < 1" "p < q"
    using that by simp
  have "compute_kelly_fraction c p =
     (if 1 \<le> p then 0 else if q - p \<le> 0 then 0 else clip ((q - p) / (1 - p)) 0 (25 / 100))"
    unfolding compute_kelly_fraction_def Let_def q_def by simp
  also have "\<dots> = (if 1 \<le> p \<or> q \<le> p then 0 else min (25 / 100) ((q - p) / (1 - p)))"
    using pos by (auto simp: clip_def max_def)
  finally show ?thesis unfolding q_def .
qed

lemma kelly_range: "0 \<le> compute_kelly_fraction c p \<and> compute_kelly_fraction c p \<le> 25 / 100"
proof -
  have c: "0 \<le> clip v 0 (25 / 100) \<and> clip v 0 (25 / 100) \<le> 25 / 100" for v
    by (simp add: clip_def)
  show ?thesis
    unfolding compute_kelly_fraction_def Let_def using c by (simp only: split: if_split) simp
qed

lemma clip_inactive:
  fixes x :: real
  assumes "\<bar>x\<bar> \<le> 2500 / 3"
  shows "clip (- (6 / 10) * x) (- 500) 500 = - (6 / 10) * x"
proof -
  have "- 500 \<le> - (6 / 10) * x" and "- (6 / 10) * x \<le> 500"
    using assms by (auto simp: abs_le_iff)
  then show ?thesis
    by (simp add: clip_def)
qed

lemma weighted_edge_range:
  "0 \<le> weighted_edge results weights attr \<and> weighted_edge results weights attr \<le> 10"
  by (simp add: weighted_edge_def Let_def clip_def COMPOSITE_FLOOR_def COMPOSITE_CEILING_def)

lemma kelly_on_scale:
  assumes "0 \<le> c" and "c \<le> 10"
  shows "compute_kelly_fraction c p =
     (if 1 \<le> p \<or> 1 / (1 + exp (- (6 / 10) * (c - 5))) \<le> p then 0
      else min (25 / 100) ((1 / (1 + exp (- (6 / 10) * (c - 5))) - p) / (1 - p)))"
proof -
  have "c - 5 \<le> 2500 / 3" and "- (c - 5) \<le> 2500 / 3"
    using assms by simp_all
  then have "\<bar>c - 5\<bar> \<le> 2500 / 3"
    by (rule abs_leI)
  then have "clip (- (6 / 10) * (c - 5)) (- 500) 500 = - (6 / 10) * (c - 5)"
    by (rule clip_inactive)
  then show ?thesis
    using kelly_unfold [of c p] by simp
qed

text \<open>
  C5. For every composite and implied probability the Kelly fraction lies in [0, 0.25].
  For every composite score, that is every value of the 0-10 scale and in particular
  every value the two composite functions return, the fraction is 0 when the implied
  probability is at least 1 or the logistic estimate 1 / (1 + e^(-0.6 * (composite - 5)))
  does not exceed it, and otherwise (estimate - implied) / (1 - implied) capped at 0.25.
  At composite 5 and implied probability 0.5 the fraction is 0.
\<close>

theorem kelly_fraction_logistic:
  "0 \<le> compute_kelly_fraction c p \<and> compute_kelly_fraction c p \<le> 25 / 100
   \<and> (0 \<le> c \<and> c \<le> 10 \<longrightarrow>
        compute_kelly_fraction c p =
          (if 1 \<le> p \<or> 1 / (1 + exp (- (6 / 10) * (c - 5))) \<le> p then 0
           else min (25 / 100) ((1 / (1 + exp (- (6 / 10) * (c - 5))) - p) / (1 - p))))
   \<and> compute_kelly_fraction (compute_spread_composite results weights) p =
        (if 1 \<le> p
            \<or> 1 / (1 + exp (- (6 / 10) * (compute_spread_composite results weights - 5))) \<le> p
         then 0
         else min (25 / 100)
                ((1 / (1 + exp (- (6 / 10) * (compute_spread_composite results weights - 5))) - p)
                   / (1 - p)))
   \<and> compute_kelly_fraction (compute_total_composite results weights) p =
        (if 1 \<le> p
            \<or> 1 / (1 + exp (- (6 / 10) * (compute_total_composite results weights - 5))) \<le> p
         then 0
         else min (25 / 100)
                ((1 / (1 + exp (- (6 / 10) * (compute_total_composite results weights - 5))) - p)
                   / (1 - p)))
   \<and> compute_kelly_fraction 5 (1 / 2) = 0"
proof -
  have s: "0 \<le> compute_spread_composite results weights
           \<and> compute_spread_composite results weights \<le> 10"
    unfolding compute_spread_composite_def by (rule weighted_edge_range)
  have t: "0 \<le> compute_total_composite results weights
           \<and> compute_total_composite results weights \<le> 10"
    unfolding compute_total_composite_def by (rule weighted_edge_range)
  have mid: "compute_kelly_fraction 5 (1 / 2) = 0"
    by (simp add: kelly_unfold clip_def)
  show ?thesis
    using kelly_range [of c p] kelly_on_scale [of c p]
      kelly_on_scale [of "compute_spread_composite results weights" p]
      kelly_on_scale [of "compute_total_composite results weights" p] s t mid
    by blast
qed

theorem kelly_fraction_logistic_witness:
  "(0::real) \<le> 10 \<and> (10::real) \<le> 10
   \<and> compute_kelly_fraction 10 (1 / 2) = 25 / 100
   \<and> compute_kelly_fraction 0 (1 / 2) = 0
   \<and> compute_kelly_fraction 10 1 = 0"
proof -
  have e3: "4 \<le> exp (3::real)"
    using exp_ge_add_one_self [of "3::real"] by simp
  have em3: "exp (- 3::real) \<le> 1 / 4"
    using e3 by (simp add: exp_minus field_simps)
  have hi: "5 / 8 \<le> 1 / (1 + exp (- 3::real))"
  proof -
    have "1 + exp (- 3::real) \<le> 8 / 5"
      using em3 by simp
    moreover have "0 < 1 + exp (- 3::real)"
      by (simp add: add_pos_pos)
    ultimately show ?thesis
      by (simp add: field_simps)
  qed
  have lo: "1 / (1 + exp (3::real)) \<le> 1 / 2"
    using e3 by (simp add: field_simps)
  have a: "compute_kelly_fraction 10 (1 / 2) =
       (if 1 \<le> (1 / 2 :: real) \<or> 1 / (1 + exp (- (6 / 10) * (10 - 5))) \<le> (1 / 2 :: real) then 0
        else min (25 / 100) ((1 / (1 + exp (- (6 / 10) * (10 - 5))) - 1 / 2) / (1 - 1 / 2)))"
    using kelly_fraction_logistic [of 10 "1 / 2"] by simp
  have b: "compute_kelly_fraction 0 (1 / 2) =
       (if 1 \<le> (1 / 2 :: real) \<or> 1 / (1 + exp (- (6 / 10) * (0 - 5))) \<le> (1 / 2 :: real) then 0
        else min (25 / 100) ((1 / (1 + exp (- (6 / 10) * (0 - 5))) - 1 / 2) / (1 - 1 / 2)))"
    using kelly_fraction_logistic [of 0 "1 / 2"] by simp
  have c: "compute_kelly_fraction 10 1 = 0"
    using kelly_fraction_logistic [of 10 1] by simp
  have z10: "- (6 / 10) * (10 - 5) = (- 3 :: real)" and z0: "- (6 / 10) * (0 - 5) = (3 :: real)"
    by simp_all
  have a': "compute_kelly_fraction 10 (1 / 2) = 25 / 100"
    unfolding a z10 using hi by (simp add: min_def)
  have b': "compute_kelly_fraction 0 (1 / 2) = 0"
    unfolding b z0 using lo by simp
  show ?thesis
    using a' b' c by simp
qed

section \<open>Properties of the calibration table\<close>

lemma calibration_rows_bin_labels:
  "calibration_rows decided bin_labels = Inr (concat (map (bin_row decided) bin_midpoints))"
  by (simp add: bin_labels_def bin_midpoints_def Let_def bin_row_def bin_data_of_def)

lemma row_bin_spec:
  assumes "ph_composite_score r = Some c" "0 \<le> c" "c \<le> 10"
  shows "row_bin r = Some l \<longleftrightarrow> l \<in> set bin_labels \<and> spec_in_band l c"
  using assms
  by (auto simp: row_bin_def bin_edges_def bin_labels_def spec_in_band_def)

lemma count_bin_rows:
  "sum_list (map cal_count (concat (map (bin_row decided) lps))) =
     (\<Sum>lp\<leftarrow>lps. length (bin_data_of decided (fst lp)))"
  by (induction lps) (simp_all add: bin_row_def)

lemma bins_partition:
  assumes "\<forall>r\<in>set decided. \<exists>c. ph_composite_score r = Some c \<and> 0 \<le> c \<and> c \<le> 10"
  shows "(\<Sum>lp\<leftarrow>bin_midpoints. length (bin_data_of decided (fst lp))) = length decided"
  using assms
proof (induction decided)
  case Nil
  show ?case by (simp add: bin_data_of_def bin_midpoints_def)
next
  case (Cons r rs)
  then obtain c where c: "ph_composite_score r = Some c" "0 \<le> c" "c \<le> 10"
    by auto
  have one: "(\<Sum>lp\<leftarrow>bin_midpoints. (if row_bin r = Some (fst lp) then 1 else 0)) = (1::nat)"
    using c by (simp add: row_bin_def bin_edges_def bin_labels_def bin_midpoints_def)
  have "(\<Sum>lp\<leftarrow>bin_midpoints. length (bin_data_of (r # rs) (fst lp))) =
        (\<Sum>lp\<leftarrow>bin_midpoints. (if row_bin r = Some (fst lp) then 1 else 0)
                                  + length (bin_data_of rs (fst lp)))"
    by (rule arg_cong [where f = sum_list]) (simp add: bin_data_of_def)
  also have "\<dots> = (\<Sum>lp\<leftarrow>bin_midpoints. (if row_bin r = Some (fst lp) then 1 else 0))
                  + (\<Sum>lp\<leftarrow>bin_midpoints. length (bin_data_of rs (fst lp)))"
    by (simp add: sum_list_addf)
  also have "\<dots> = 1 + length rs"
    using one Cons by simp
  finally show ?case by simp
qed

lemma bin_rows_member:
  assumes "row \<in> set (concat (map (bin_row decided) lps))"
  shows "\<exists>lp\<in>set lps. bin_data_of decided (fst lp) \<noteq> [] \<and>
           row = \<lparr>cal_bin = fst lp, cal_predicted = snd lp,
                  cal_actual = mean (map is_win (bin_data_of decided (fst lp))),
                  cal_count = length (bin_data_of decided (fst lp))\<rparr>"
  using assms by (auto simp: bin_row_def split: if_splits)

lemma bin_rows_labels:
  "map cal_bin (concat (map (bin_row decided) lps)) =
     filter (\<lambda>l. bin_data_of decided l \<noteq> []) (map fst lps)"
  by (induction lps) (simp_all add: bin_row_def)

lemma sum_is_win: "sum_list (map is_win rs) = length (filter (\<lambda>r. ph_result r = Some ''W'') rs)"
  by (induction rs) (simp_all add: is_win_def)

lemma bin_data_band:
  assumes "\<forall>r\<in>set df. \<exists>c. ph_composite_score r = Some c \<and> 0 \<le> c \<and> c \<le> 10"
    and "l \<in> set bin_labels"
  shows "bin_data_of (filter is_decided df) l = band_picks l df"
proof -
  have "(row_bin r = Some l) =
        (case ph_composite_score r of None \<Rightarrow> False | Some c \<Rightarrow> spec_in_band l c)"
    if "r \<in> set df" for r
  proof -
    from assms(1) that obtain c where c: "ph_composite_score r = Some c" "0 \<le> c" "c \<le> 10"
      by auto
    show ?thesis
      using row_bin_spec [OF c, of l] assms(2) c(1) by simp
  qed
  then show ?thesis
    unfolding bin_data_of_def band_picks_def filter_filter
    by (intro filter_cong) auto
qed

lemma midpoints_spec:
  assumes "lp \<in> set bin_midpoints"
  shows "fst lp \<in> set bin_labels \<and> snd lp = spec_predicted (fst lp)"
  using assms by (auto simp: bin_midpoints_def bin_labels_def spec_predicted_def)

lemma build_calibration_rows:
  "build_calibration df = Inr (concat (map (bin_row (filter is_decided df)) bin_midpoints))"
proof (cases "filter is_decided df = []")
  case True
  then show ?thesis
    by (simp add: build_calibration_def bin_row_def bin_data_of_def bin_midpoints_def)
next
  case False
  then show ?thesis
    by (simp add: build_calibration_def calibration_rows_bin_labels)
qed

text \<open>
  C8. For every frame of resolved picks whose composite scores lie in [0, 10],
  \<open>_build_calibration\<close> returns a table; no row of it has count zero; the counts of
  its rows add up to the number of decided (W or L) picks; no band has two rows; and each
  row carries a label of the five bands, the fixed constant of that band as predicted
  value (0.10, 0.325, 0.575, 0.775, 0.925), the number of decided picks inside the band as
  count, and the fraction of wins among them as actual value.
\<close>

theorem calibration_table:
  assumes scores: "\<forall>r\<in>set df. \<exists>c. ph_composite_score r = Some c \<and> 0 \<le> c \<and> c \<le> 10"
  shows "\<exists>rows. build_calibration df = Inr rows
           \<and> (\<forall>row\<in>set rows. cal_count row \<noteq> 0)
           \<and> sum_list (map cal_count rows) = length (filter is_decided df)
           \<and> distinct (map cal_bin rows)
           \<and> (\<forall>row\<in>set rows.
                 cal_bin row \<in> set bin_labels
                 \<and> cal_predicted row = spec_predicted (cal_bin row)
                 \<and> cal_count row = length (band_picks (cal_bin row) df)
                 \<and> cal_actual row =
                     real (length (filter (\<lambda>r. ph_result r = Some ''W'')
                                     (band_picks (cal_bin row) df)))
                       / real (length (band_picks (cal_bin row) df)))"
proof -
  define decided where "decided = filter is_decided df"
  define rows where "rows = concat (map (bin_row decided) bin_midpoints)"
  have built: "build_calibration df = Inr rows"
    unfolding rows_def decided_def by (rule build_calibration_rows)
  have dscores: "\<forall>r\<in>set decided. \<exists>c. ph_composite_score r = Some c \<and> 0 \<le> c \<and> c \<le> 10"
    using scores unfolding decided_def by simp
  have shape: "\<exists>lp\<in>set bin_midpoints. bin_data_of decided (fst lp) \<noteq> [] \<and>
           row = \<lparr>cal_bin = fst lp, cal_predicted = snd lp,
                  cal_actual = mean (map is_win (bin_data_of decided (fst lp))),
                  cal_count = length (bin_data_of decided (fst lp))\<rparr>"
    if "row \<in> set rows" for row
    using that unfolding rows_def by (rule bin_rows_member)
  have nonzero: "\<forall>row\<in>set rows. cal_count row \<noteq> 0"
  proof
    fix row assume "row \<in> set rows"
    from shape [OF this] show "cal_count row \<noteq> 0" by auto
  qed
  have "sum_list (map cal_count rows) = length decided"
    unfolding rows_def count_bin_rows by (rule bins_partition [OF dscores])
  then have total: "sum_list (map cal_count rows) = length (filter is_decided df)"
    unfolding decided_def .
  have dist: "distinct (map cal_bin rows)"
    unfolding rows_def bin_rows_labels
    by (rule distinct_filter) (simp add: bin_midpoints_def)
  have each: "\<forall>row\<in>set rows.
                 cal_bin row \<in> set bin_labels
                 \<and> cal_predicted row = spec_predicted (cal_bin row)
                 \<and> cal_count row = length (band_picks (cal_bin row) df)
                 \<and> cal_actual row =
                     real (length (filter (\<lambda>r. ph_result r = Some ''W'')
                                     (band_picks (cal_bin row) df)))
                       / real (length (band_picks (cal_bin row) df))"
  proof
    fix row assume "row \<in> set rows"
    from shape [OF this] obtain lp where lp: "lp \<in> set bin_midpoints"
      and row: "row = \<lparr>cal_bin = fst lp, cal_predicted = snd lp,
                  cal_actual = mean (map is_win (bin_data_of decided (fst lp))),
                  cal_count = length (bin_data_of decided (fst lp))\<rparr>"
      by blast
    have lab: "fst lp \<in> set bin_labels" and pred: "snd lp = spec_predicted (fst lp)"
      using midpoints_spec [OF lp] by simp_all
    have band: "bin_data_of decided (fst lp) = band_picks (fst lp) df"
      unfolding decided_def by (rule bin_data_band [OF scores lab])
    show "cal_bin row \<in> set bin_labels
                 \<and> cal_predicted row = spec_predicted (cal_bin row)
                 \<and> cal_count row = length (band_picks (cal_bin row) df)
                 \<and> cal_actual row =
                     real (length (filter (\<lambda>r. ph_result r = Some ''W'')
                                     (band_picks (cal_bin row) df)))
                       / real (length (band_picks (cal_bin row) df))"
      unfolding row band using lab pred by (simp add: mean_def sum_is_win)
  qed
  show ?thesis
    using built nonzero total dist each by blast
qed

theorem calibration_table_witness:
  "map ph_composite_score calib_df = [Some 10, Some 3, Some 2]
   \<and> build_calibration calib_df =
       Inr [\<lparr>cal_bin = ''2-4.5'', cal_predicted = 325 / 1000, cal_actual = 0, cal_count = 1\<rparr>,
            \<lparr>cal_bin = ''8.5-10'', cal_predicted = 925 / 1000, cal_actual = 1, cal_count = 1\<rparr>]
   \<and> length (filter is_decided calib_df) = 2"
proof -
  have h: "\<forall>r\<in>set calib_df. \<exists>c. ph_composite_score r = Some c \<and> 0 \<le> c \<and> c \<le> 10"
    by (simp add: calib_df_def)
  have e: "build_calibration calib_df =
       Inr [\<lparr>cal_bin = ''2-4.5'', cal_predicted = 325 / 1000, cal_actual = 0, cal_count = 1\<rparr>,
            \<lparr>cal_bin = ''8.5-10'', cal_predicted = 925 / 1000, cal_actual = 1, cal_count = 1\<rparr>]"
    by (simp add: build_calibration_def calib_df_def is_decided_def bin_labels_def
        bin_midpoints_def bin_edges_def row_bin_def mean_def is_win_def)
  have d: "length (filter is_decided calib_df) = 2"
    by (simp add: calib_df_def is_decided_def)
  have m: "map ph_composite_score calib_df = [Some 10, Some 3, Some 2]"
    by (simp add: calib_df_def)
  from calibration_table [OF h] e d m show ?thesis
    by simp
qed

section \<open>Properties of record_result\<close>

text \<open>
  C9. \<open>record_result\<close> raises a value error exactly when the upper-cased result code
  is outside W, L, P or the lower-cased pick type is outside spread, total; it raises
  nothing else, and when it raises the table is unchanged. The table keeps its length,
  and row by row: on valid input a row that equals the arguments on game date, away
  team, home team and (normalised) pick type and whose result is unset gets the
  normalised result code, every other row stays as it is. On valid input with no such
  row the call returns normally with the warning logged and the table unchanged; with
  such a row it returns normally with the info line logged.
\<close>

theorem record_result_contract:
  "((\<exists>msg. fst (record_result conn d a h pt res) = Inl (ValueError msg))
      \<longleftrightarrow> (str_upper res \<notin> {''W'', ''L'', ''P''} \<or> str_lower pt \<notin> {''spread'', ''total''}))
   \<and> (\<forall>e. fst (record_result conn d a h pt res) = Inl e \<longrightarrow>
          (\<exists>msg. e = ValueError msg) \<and> snd (record_result conn d a h pt res) = conn)
   \<and> length (snd (record_result conn d a h pt res)) = length conn
   \<and> (\<forall>i<length conn.
          snd (record_result conn d a h pt res) ! i =
            (if str_upper res \<in> {''W'', ''L'', ''P''} \<and> str_lower pt \<in> {''spread'', ''total''}
                \<and> ph_game_date (conn ! i) = d \<and> ph_away_team (conn ! i) = a
                \<and> ph_home_team (conn ! i) = h \<and> ph_pick_type (conn ! i) = str_lower pt
                \<and> ph_result (conn ! i) = None
             then (conn ! i)\<lparr>ph_result := Some (str_upper res)\<rparr>
             else conn ! i))
   \<and> (str_upper res \<in> {''W'', ''L'', ''P''} \<and> str_lower pt \<in> {''spread'', ''total''}
        \<and> (\<forall>r\<in>set conn. \<not> (ph_game_date r = d \<and> ph_away_team r = a \<and> ph_home_team r = h
                              \<and> ph_pick_type r = str_lower pt \<and> ph_result r = None))
        \<longrightarrow> record_result conn d a h pt res = (Inr LogWarning, conn))
   \<and> (str_upper res \<in> {''W'', ''L'', ''P''} \<and> str_lower pt \<in> {''spread'', ''total''}
        \<and> (\<exists>r\<in>set conn. ph_game_date r = d \<and> ph_away_team r = a \<and> ph_home_team r = h
                              \<and> ph_pick_type r = str_lower pt \<and> ph_result r = None)
        \<longrightarrow> fst (record_result conn d a h pt res) = Inr LogInfo)"
proof -
  let ?rr = "record_result conn d a h pt res"
  let ?valid = "str_upper res \<in> {''W'', ''L'', ''P''} \<and> str_lower pt \<in> {''spread'', ''total''}"
  let ?hit = "update_matches d a h (str_lower pt)"
  have invalid: "?rr = (Inl (ValueError (if str_upper res \<notin> {''W'', ''L'', ''P''}
                                         then str_upper res else str_lower pt)), conn)"
    if "\<not> ?valid"
    using that by (auto simp: record_result_def Let_def)
  have valid: "?rr = (if filter ?hit conn = [] then Inr LogWarning else Inr LogInfo,
                      map (\<lambda>r. if ?hit r then r\<lparr>ph_result := Some (str_upper res)\<rparr> else r) conn)"
    if "?valid"
    using that by (auto simp: record_result_def Let_def)
  show ?thesis
  proof (cases "?valid")
    case True
    have nohit: "map (\<lambda>r. if ?hit r then r\<lparr>ph_result := Some (str_upper res)\<rparr> else r) conn = conn"
      if "\<forall>r\<in>set conn. \<not> ?hit r"
      using that by (simp add: map_idI)
    show ?thesis
      unfolding valid [OF True] using True nohit
      by (auto simp: update_matches_def filter_empty_conv)
  next
    case False
    show ?thesis
      unfolding invalid [OF False] using False by auto
  qed
qed

lemma case_examples:
  "str_upper ''w'' = ''W''" "str_upper ''x'' = ''X''" "str_lower ''Spread'' = ''spread''"
  by (simp_all add: str_upper_def str_lower_def upper_char_def lower_char_def
      ascii_lowercase_def ascii_uppercase_def)

theorem record_result_contract_witness:
  "str_upper ''w'' \<in> {''W'', ''L'', ''P''} \<and> str_lower ''Spread'' \<in> {''spread'', ''total''}
   \<and> record_result results_conn ''2025-02-14'' ''Duke'' ''UNC'' ''Spread'' ''w'' =
       (Inr LogInfo,
        [(results_conn ! 0)\<lparr>ph_result := Some ''W''\<rparr>, results_conn ! 1, results_conn ! 2])
   \<and> str_upper ''x'' \<notin> {''W'', ''L'', ''P''}
   \<and> record_result results_conn ''2025-02-14'' ''Duke'' ''UNC'' ''Spread'' ''x'' =
       (Inl (ValueError ''X''), results_conn)
   \<and> record_result results_conn ''2025-02-15'' ''Duke'' ''UNC'' ''Spread'' ''w'' =
       (Inr LogWarning, results_conn)"
proof -
  have v: "str_upper ''w'' \<in> {''W'', ''L'', ''P''} \<and> str_lower ''Spread'' \<in> {''spread'', ''total''}"
    by (simp add: case_examples)
  have nv: "str_upper ''x'' \<notin> {''W'', ''L'', ''P''}"
    by (simp add: case_examples)
  have a: "record_result results_conn ''2025-02-14'' ''Duke'' ''UNC'' ''Spread'' ''w'' =
       (Inr LogInfo,
        [(results_conn ! 0)\<lparr>ph_result := Some ''W''\<rparr>, results_conn ! 1, results_conn ! 2])"
    unfolding record_result_def case_examples Let_def
    by (simp add: results_conn_def update_matches_def)
  have b: "record_result results_conn ''2025-02-14'' ''Duke'' ''UNC'' ''Spread'' ''x'' =
       (Inl (ValueError ''X''), results_conn)"
    unfolding record_result_def case_examples Let_def by simp
  have none: "\<forall>r\<in>set results_conn.
       \<not> (ph_game_date r = ''2025-02-15'' \<and> ph_away_team r = ''Duke'' \<and> ph_home_team r = ''UNC''
          \<and> ph_pick_type r = str_lower ''Spread'' \<and> ph_result r = None)"
    by (simp add: results_conn_def)
  have c: "record_result results_conn ''2025-02-15'' ''Duke'' ''UNC'' ''Spread'' ''w'' =
       (Inr LogWarning, results_conn)"
    using record_result_contract
      [where conn = results_conn and d = "''2025-02-15''" and a = "''Duke''" and h = "''UNC''"
         and pt = "''Spread''" and res = "''w''"] v none
    by blast
  show ?thesis
    using v nv a b c by blast
qed

section \<open>Properties of the dispatcher\<close>

text \<open>
  C2, as stated, fails for the name "bogus", which the registry does not hold: on an
  empty cache the dispatcher returns the neutral result for it instead of raising.
\<close>

theorem unknown_dimension_counterexample:
  "map_of DIMENSION_REGISTRY ''bogus'' = None
   \<and> fst (run_dimension flat_importer no_dim_funcs ''bogus'' duke_unc) =
       Inr \<lparr>name = ''bogus'', spread_edge = 0, total_edge = 0, confidence = 0,
            narrative = ''[bogus] dimension unavailable.'', raw_data = None\<rparr>"
  by (simp add: DIMENSION_REGISTRY_def run_dimension_def run_dimension_try_def
      get_dimension_func_def no_dim_funcs_def neutral_result_def)

text \<open>
  C2, amended. For every dimension name that is neither in the registry nor in the
  cache, \<open>_get_dimension_func\<close> raises \<open>KeyError\<close> for it, and the dispatcher
  \<open>_run_dimension\<close> catches that error and returns the neutral result (zero edges,
  zero confidence, the narrative that the dimension is unavailable), leaving the cache as
  it was.
\<close>

theorem unknown_dimension_neutral:
  assumes "map_of DIMENSION_REGISTRY dim_name = None" and "dim_funcs dim_name = None"
  shows "get_dimension_func imp dim_funcs dim_name = (Inl (KeyError dim_name), dim_funcs)
         \<and> run_dimension imp dim_funcs dim_name ctx =
             (Inr \<lparr>name = dim_name, spread_edge = 0, total_edge = 0, confidence = 0,
                   narrative = ''['' @ dim_name @ ''] dimension unavailable.'',
                   raw_data = None\<rparr>, dim_funcs)"
  using assms
  by (simp add: get_dimension_func_def run_dimension_def run_dimension_try_def neutral_result_def)

theorem unknown_dimension_neutral_witness:
  "map_of DIMENSION_REGISTRY ''bogus'' = None \<and> no_dim_funcs ''bogus'' = None
   \<and> fst (get_dimension_func flat_importer no_dim_funcs ''bogus'') = Inl (KeyError ''bogus'')
   \<and> fst (run_dimension flat_importer no_dim_funcs ''bogus'' duke_unc) =
       Inr \<lparr>name = ''bogus'', spread_edge = 0, total_edge = 0, confidence = 0,
            narrative = ''[bogus] dimension unavailable.'', raw_data = None\<rparr>"
proof -
  have r: "map_of DIMENSION_REGISTRY ''bogus'' = None"
    by (simp add: DIMENSION_REGISTRY_def)
  have c: "no_dim_funcs ''bogus'' = None"
    by (simp add: no_dim_funcs_def)
  show ?thesis
    using r c
      unknown_dimension_neutral [where dim_name = "''bogus''" and dim_funcs = no_dim_funcs
        and imp = flat_importer and ctx = duke_unc]
    by simp
qed

text \<open>
  C6. For every name, cache, importer and context the dispatcher returns a result, never
  an exception, and the confidence of that result lies in [0, 1]. For a registered name
  whose signal source resolves to a callable: if the callable raises, whatever the
  exception, the result is the neutral one (zero spread edge, zero total edge, zero
  confidence, the narrative that the dimension is unavailable); if it returns, the result
  is the returned one with its confidence clamped into [0, 1].
\<close>

theorem dispatcher_isolates_failures:
  "(\<exists>r. fst (run_dimension imp dim_funcs dim_name ctx) = Inr r
         \<and> 0 \<le> confidence r \<and> confidence r \<le> 1)
   \<and> (map_of DIMENSION_REGISTRY dim_name \<noteq> None
        \<and> get_dimension_func imp dim_funcs dim_name = (Inr func, dim_funcs') \<longrightarrow>
        (\<forall>e. func ctx = Inl e \<longrightarrow>
            run_dimension imp dim_funcs dim_name ctx =
              (Inr \<lparr>name = dim_name, spread_edge = 0, total_edge = 0, confidence = 0,
                    narrative = ''['' @ dim_name @ ''] dimension unavailable.'',
                    raw_data = None\<rparr>, dim_funcs'))
        \<and> (\<forall>r. func ctx = Inr r \<longrightarrow>
              run_dimension imp dim_funcs dim_name ctx =
                (Inr (r\<lparr>confidence := max 0 (min 1 (confidence r))\<rparr>), dim_funcs')))"
  by (auto simp: run_dimension_def run_dimension_try_def neutral_result_def
      split: sum.splits prod.splits)

lemma flat_lookup:
  "get_dimension_func flat_importer no_dim_funcs ''pace_adjusted'' =
     (flat_importer ''.dimensions.pace_adjusted'' ''analyze'',
      no_dim_funcs(''pace_adjusted'' \<mapsto>
        (\<lambda>ctx. Inr \<lparr>name = ''pace_adjusted'', spread_edge = - (1 / 10), total_edge = 1 / 10,
                      confidence = 3 / 2, narrative = ''flat'', raw_data = None\<rparr>)))"
  by (simp add: get_dimension_func_def no_dim_funcs_def DIMENSION_REGISTRY_def flat_importer_def)

lemma raising_lookup:
  "get_dimension_func raising_importer no_dim_funcs ''pace_adjusted'' =
     (raising_importer ''.dimensions.pace_adjusted'' ''analyze'',
      no_dim_funcs(''pace_adjusted'' \<mapsto> (\<lambda>ctx. Inl (OtherException ''ZeroDivisionError''))))"
  by (simp add: get_dimension_func_def no_dim_funcs_def DIMENSION_REGISTRY_def
      raising_importer_def)

theorem dispatcher_isolates_failures_witness:
  "map_of DIMENSION_REGISTRY ''pace_adjusted'' \<noteq> None
   \<and> fst (run_dimension raising_importer no_dim_funcs ''pace_adjusted'' duke_unc) =
       Inr \<lparr>name = ''pace_adjusted'', spread_edge = 0, total_edge = 0, confidence = 0,
            narrative = ''[pace_adjusted] dimension unavailable.'', raw_data = None\<rparr>
   \<and> fst (run_dimension flat_importer no_dim_funcs ''pace_adjusted'' duke_unc) =
       Inr \<lparr>name = ''pace_adjusted'', spread_edge = - (1 / 10), total_edge = 1 / 10,
            confidence = 1, narrative = ''flat'', raw_data = None\<rparr>"
proof -
  have reg: "map_of DIMENSION_REGISTRY ''pace_adjusted'' \<noteq> None"
    by (simp add: DIMENSION_REGISTRY_def)
  have a: "fst (run_dimension raising_importer no_dim_funcs ''pace_adjusted'' duke_unc) =
       Inr \<lparr>name = ''pace_adjusted'', spread_edge = 0, total_edge = 0, confidence = 0,
            narrative = ''[pace_adjusted] dimension unavailable.'', raw_data = None\<rparr>"
    using reg raising_lookup
      dispatcher_isolates_failures [where imp = raising_importer and dim_funcs = no_dim_funcs
        and dim_name = "''pace_adjusted''" and ctx = duke_unc
        and func = "\<lambda>ctx. Inl (OtherException ''ZeroDivisionError'')"
        and dim_funcs' = "no_dim_funcs(''pace_adjusted'' \<mapsto>
                            (\<lambda>ctx. Inl (OtherException ''ZeroDivisionError'')))"]
    by (simp add: raising_importer_def)
  have b: "fst (run_dimension flat_importer no_dim_funcs ''pace_adjusted'' duke_unc) =
       Inr \<lparr>name = ''pace_adjusted'', spread_edge = - (1 / 10), total_edge = 1 / 10,
            confidence = 1, narrative = ''flat'', raw_data = None\<rparr>"
    by (simp add: run_dimension_def run_dimension_try_def flat_lookup flat_importer_def)
  show ?thesis
    using reg a b by simp
qed

section \<open>Properties of analyze_matchup\<close>

lemma py_round1_shift: "py_round1 (x - 140) = py_round1 x - 140"
proof -
  have y: "(x - 140) * 10 = x * 10 - of_int 1400"
    by simp
  have f: "\<lfloor>x * 10 - of_int 1400\<rfloor> = \<lfloor>x * 10\<rfloor> - 1400"
    by (rule floor_diff_of_int)
  have ev: "even (\<lfloor>x * 10\<rfloor> - 1400) = even \<lfloor>x * 10\<rfloor>"
    by simp
  show ?thesis
    unfolding py_round1_def Let_def y f ev
    by (simp add: diff_divide_distrib)
qed

lemma py_round1_examples:
  "py_round1 (70875 / 1000) = 709 / 10" "py_round1 (175 / 100) = 18 / 10" "py_round1 0 = 0"
  "py_round1 (165 / 100) = 16 / 10" "py_round1 (14175 / 100) = 1418 / 10"
  by (simp_all add: py_round1_def Let_def)

lemma run_flat:
  "fst (run_dimensions flat_importer no_dim_funcs (map fst DIMENSION_WEIGHTS) duke_unc) =
     Inr flat_results"
  by (simp add: DIMENSION_WEIGHTS_def flat_results_def run_dimension_def run_dimension_try_def
      get_dimension_func_def DIMENSION_REGISTRY_def flat_importer_def no_dim_funcs_def)

lemma analyze_matchup_fst:
  "fst (analyze_matchup imp dim_funcs ctx) =
     (case fst (run_dimensions imp dim_funcs (map fst DIMENSION_WEIGHTS) ctx) of
        Inl e \<Rightarrow> Inl e
      | Inr results \<Rightarrow> assemble_card results ctx)"
  by (simp add: analyze_matchup_def split: prod.splits sum.splits)

lemma flat_composites:
  "compute_spread_composite flat_results (map_of DIMENSION_WEIGHTS) = 1"
  "compute_total_composite flat_results (map_of DIMENSION_WEIGHTS) = 1"
  by (simp_all add: compute_spread_composite_def compute_total_composite_def weighted_edge_def
      flat_results_def DIMENSION_WEIGHTS_def weighted_edge_step_def weights_get_def Let_def
      clip_def COMPOSITE_FLOOR_def COMPOSITE_CEILING_def RAW_TO_SCALE_FACTOR_def)

lemma flat_directions:
  "aggregate_direction flat_results SpreadEdge = - (12 / 10)"
  "aggregate_direction flat_results TotalEdge = 12 / 10"
  by (simp_all add: aggregate_direction_def flat_results_def DIMENSION_WEIGHTS_def)

lemma flat_projection:
  "project_scores flat_results duke_unc = Inr (70875 / 1000, 70875 / 1000)"
  by (simp add: project_scores_def truthy_raw_data_def flat_results_def DIMENSION_WEIGHTS_def
      rating_or_default_def rating_blend_def duke_unc_def Let_def)

lemma flat_narratives:
  "top_narratives flat_results = [''flat'', ''flat'', ''flat'']"
  "trap_narratives flat_results = []"
  by (simp_all add: top_narratives_def trap_narratives_def flat_results_def
      DIMENSION_WEIGHTS_def)

lemma flat_make_card:
  "make_card flat_results duke_unc (70875 / 1000) (70875 / 1000) =
     \<lparr>card_away_team = ''Duke'', card_home_team = ''UNC'', card_game_date = ''2025-02-14'',
      card_spread = 0, card_total = 140,
      projected_away_score = 709 / 10, projected_home_score = 709 / 10,
      projected_total = 1418 / 10, true_spread = 0,
      spread_pick = ''UNC'', spread_confidence = ''SKIP'', spread_composite = 1,
      spread_value = 0,
      total_pick = ''OVER'', total_confidence = ''SKIP'', total_composite = 1,
      total_value = 18 / 10,
      dimension_results = flat_results,
      headline = ''UNC SKIP (covers) | OVER SKIP'',
      key_factors = [''flat'', ''flat'', ''flat''],
      trap_warnings = []\<rparr>"
proof -
  have t: "assign_tier 1 = SKIP"
    by (simp add: assign_tier_def)
  have r: "py_round1 (567 / 8) = 709 / 10" "py_round1 (7 / 4) = 18 / 10"
    "py_round1 0 = 0" "py_round1 (567 / 4) = 1418 / 10"
    by (simp_all add: py_round1_def Let_def)
  have ctx: "away_team duke_unc = ''Duke''" "home_team duke_unc = ''UNC''"
    "game_date duke_unc = ''2025-02-14''" "line duke_unc = []"
    by (simp_all add: duke_unc_def)
  show ?thesis
    unfolding make_card_def Let_def flat_composites flat_directions flat_narratives ctx t
    by (simp add: r float_unless_none_def float_or_def)
qed

lemma flat_card:
  "fst (analyze_matchup flat_importer no_dim_funcs duke_unc) =
     Inr (make_card flat_results duke_unc (70875 / 1000) (70875 / 1000))"
  unfolding analyze_matchup_fst run_flat
  by (simp add: assemble_card_def flat_projection)

lemma make_card_pick_sides:
  "spread_pick (make_card results ctx pa ph) =
     (if aggregate_direction results SpreadEdge \<ge> 0 then away_team ctx else home_team ctx)"
  "total_pick (make_card results ctx pa ph) =
     (if aggregate_direction results TotalEdge \<ge> 0 then ''OVER'' else ''UNDER'')"
  "spread_confidence (make_card results ctx pa ph) =
     tier_value (assign_tier (compute_spread_composite results (map_of DIMENSION_WEIGHTS)))"
  "total_confidence (make_card results ctx pa ph) =
     tier_value (assign_tier (compute_total_composite results (map_of DIMENSION_WEIGHTS)))"
  by (simp_all add: make_card_def Let_def)

lemma run_raising:
  "fst (run_dimensions raising_importer no_dim_funcs (map fst DIMENSION_WEIGHTS) duke_unc) =
     Inr neutral_results"
  by (simp add: DIMENSION_WEIGHTS_def neutral_results_def run_dimension_def
      run_dimension_try_def get_dimension_func_def DIMENSION_REGISTRY_def raising_importer_def
      no_dim_funcs_def)

lemma neutral_composites:
  "compute_spread_composite neutral_results (map_of DIMENSION_WEIGHTS) = 0"
  "compute_total_composite neutral_results (map_of DIMENSION_WEIGHTS) = 0"
  by (simp_all add: compute_spread_composite_def compute_total_composite_def weighted_edge_def
      neutral_results_def neutral_result_def DIMENSION_WEIGHTS_def weighted_edge_step_def
      weights_get_def Let_def clip_def COMPOSITE_FLOOR_def COMPOSITE_CEILING_def
      RAW_TO_SCALE_FACTOR_def)

lemma neutral_directions:
  "aggregate_direction neutral_results SpreadEdge = 0"
  "aggregate_direction neutral_results TotalEdge = 0"
  by (simp_all add: aggregate_direction_def neutral_results_def neutral_result_def
      DIMENSION_WEIGHTS_def)

lemma neutral_projection:
  "project_scores neutral_results duke_unc = Inr (70875 / 1000, 70875 / 1000)"
  by (simp add: project_scores_def truthy_raw_data_def neutral_results_def neutral_result_def
      DIMENSION_WEIGHTS_def rating_or_default_def rating_blend_def duke_unc_def Let_def)

lemma neutral_card:
  "fst (analyze_matchup raising_importer no_dim_funcs duke_unc) =
     Inr (make_card neutral_results duke_unc (70875 / 1000) (70875 / 1000))"
  unfolding analyze_matchup_fst run_raising
  by (simp add: assemble_card_def neutral_projection)

text \<open>
  C1. The pick side of a market whose tier is SKIP is not forced to the empty string. On
  the context Duke at UNC with no data, when every signal source raises (zero edges, so
  composites 0.0 and directional sums 0), both tiers are SKIP and the card of
  \<open>analyze_matchup\<close> carries the spread pick "Duke" and the total pick "OVER"; when
  every signal source reports spread edge -0.1, total edge 0.1 and confidence 1.5, both
  composites are 1.0, both tiers SKIP, and the card carries the spread pick "UNC" and the
  total pick "OVER".
\<close>

theorem skip_tier_keeps_pick_side:
  "map_sum id spread_confidence (fst (analyze_matchup raising_importer no_dim_funcs duke_unc)) =
     Inr ''SKIP''
   \<and> map_sum id spread_pick (fst (analyze_matchup raising_importer no_dim_funcs duke_unc)) =
       Inr ''Duke''
   \<and> map_sum id total_confidence (fst (analyze_matchup raising_importer no_dim_funcs duke_unc)) =
       Inr ''SKIP''
   \<and> map_sum id total_pick (fst (analyze_matchup raising_importer no_dim_funcs duke_unc)) =
       Inr ''OVER''
   \<and> map_sum id spread_confidence (fst (analyze_matchup flat_importer no_dim_funcs duke_unc)) =
       Inr ''SKIP''
   \<and> map_sum id spread_pick (fst (analyze_matchup flat_importer no_dim_funcs duke_unc)) =
       Inr ''UNC''
   \<and> map_sum id total_confidence (fst (analyze_matchup flat_importer no_dim_funcs duke_unc)) =
       Inr ''SKIP''
   \<and> map_sum id total_pick (fst (analyze_matchup flat_importer no_dim_funcs duke_unc)) =
       Inr ''OVER''"
proof -
  have t: "assign_tier 0 = SKIP"
    by (simp add: assign_tier_def)
  have ctx: "away_team duke_unc = ''Duke''"
    by (simp add: duke_unc_def)
  show ?thesis
    unfolding flat_card flat_make_card neutral_card
    by (simp add: make_card_pick_sides neutral_composites neutral_directions t ctx)
qed

lemma run_dimension_returns:
  "\<exists>r c. run_dimension imp dim_funcs dim_name ctx = (Inr r, c)"
  by (auto simp: run_dimension_def split: prod.splits sum.splits)

lemma run_dimensions_returns:
  "\<exists>results c. run_dimensions imp dim_funcs names ctx = (Inr results, c)"
proof (induction names arbitrary: dim_funcs)
  case Nil
  show ?case by simp
next
  case (Cons n ns)
  obtain r c where r: "run_dimension imp dim_funcs n ctx = (Inr r, c)"
    using run_dimension_returns by blast
  from Cons [of c] obtain rs c' where "run_dimensions imp c ns ctx = (Inr rs, c')"
    by blast
  with r show ?case by simp
qed

lemma make_card_empty_line:
  assumes "line ctx = []"
  shows "card_spread (make_card results ctx pa ph) = 0"
    and "card_total (make_card results ctx pa ph) = 140"
    and "spread_value (make_card results ctx pa ph) = py_round1 ((pa - ph) - 0)"
    and "total_value (make_card results ctx pa ph) = py_round1 ((pa + ph) - 140)"
    and "true_spread (make_card results ctx pa ph) = py_round1 (pa - ph)"
    and "projected_total (make_card results ctx pa ph) = py_round1 (pa + ph)"
  using assms
  by (simp_all add: make_card_def Let_def float_unless_none_def float_or_def)

text \<open>
  C10. For every context whose market line is empty, every importer and every cache: the
  dimensions all return, and the projection decides the outcome. If it raises (a missing
  rating), \<open>analyze_matchup\<close> raises the same error. Otherwise the card records the
  market spread 0.0 and the market total 140.0, its spread value is the rounded
  difference of the projected scores minus 0 and its total value the rounded sum of the
  projected scores minus 140, which are the card's true spread minus 0 and the card's
  projected total minus 140; nothing on the card tells that the line was absent.
\<close>

theorem empty_line_defaults:
  assumes "line ctx = []"
  shows "\<exists>results c.
           run_dimensions imp dim_funcs (map fst DIMENSION_WEIGHTS) ctx = (Inr results, c)
           \<and> (\<forall>e. project_scores results ctx = Inl e \<longrightarrow>
                  analyze_matchup imp dim_funcs ctx = (Inl e, c))
           \<and> (\<forall>pa ph. project_scores results ctx = Inr (pa, ph) \<longrightarrow>
                 (\<exists>pc. analyze_matchup imp dim_funcs ctx = (Inr pc, c)
                    \<and> card_spread pc = 0
                    \<and> card_total pc = 140
                    \<and> spread_value pc = py_round1 ((pa - ph) - 0)
                    \<and> total_value pc = py_round1 ((pa + ph) - 140)
                    \<and> spread_value pc = true_spread pc
                    \<and> total_value pc = projected_total pc - 140))"
proof -
  obtain results c where
    run: "run_dimensions imp dim_funcs (map fst DIMENSION_WEIGHTS) ctx = (Inr results, c)"
    using run_dimensions_returns by blast
  have am: "analyze_matchup imp dim_funcs ctx = (assemble_card results ctx, c)"
    by (simp add: analyze_matchup_def run)
  have err: "analyze_matchup imp dim_funcs ctx = (Inl e, c)"
    if "project_scores results ctx = Inl e" for e
    using that by (simp add: am assemble_card_def)
  have ok: "\<exists>pc. analyze_matchup imp dim_funcs ctx = (Inr pc, c)
                    \<and> card_spread pc = 0
                    \<and> card_total pc = 140
                    \<and> spread_value pc = py_round1 ((pa - ph) - 0)
                    \<and> total_value pc = py_round1 ((pa + ph) - 140)
                    \<and> spread_value pc = true_spread pc
                    \<and> total_value pc = projected_total pc - 140"
    if "project_scores results ctx = Inr (pa, ph)" for pa ph
  proof -
    have "analyze_matchup imp dim_funcs ctx = (Inr (make_card results ctx pa ph), c)"
      using that by (simp add: am assemble_card_def)
    then show ?thesis
      by (simp add: make_card_empty_line [OF assms] py_round1_shift)
  qed
  show ?thesis
    using run err ok by blast
qed

theorem empty_line_defaults_witness:
  "line duke_unc = []
   \<and> map_sum id card_spread (fst (analyze_matchup flat_importer no_dim_funcs duke_unc)) = Inr 0
   \<and> map_sum id card_total (fst (analyze_matchup flat_importer no_dim_funcs duke_unc)) = Inr 140
   \<and> map_sum id spread_value (fst (analyze_matchup flat_importer no_dim_funcs duke_unc)) = Inr 0
   \<and> map_sum id total_value (fst (analyze_matchup flat_importer no_dim_funcs duke_unc)) =
       Inr (18 / 10)"
proof -
  have l: "line duke_unc = []"
    by (simp add: duke_unc_def)
  have ev: "map_sum id card_spread (fst (analyze_matchup flat_importer no_dim_funcs duke_unc)) = Inr 0
   \<and> map_sum id card_total (fst (analyze_matchup flat_importer no_dim_funcs duke_unc)) = Inr 140
   \<and> map_sum id spread_value (fst (analyze_matchup flat_importer no_dim_funcs duke_unc)) = Inr 0
   \<and> map_sum id total_value (fst (analyze_matchup flat_importer no_dim_funcs duke_unc)) =
       Inr (18 / 10)"
    unfolding flat_card flat_make_card by simp
  show ?thesis
    using l ev empty_line_defaults [OF l, of flat_importer no_dim_funcs] by blast
qed

end
